theory Spec2Isabelle
  imports Main "HOL-Library.AList" "HOL-Library.Word"
begin

section \<open>Go values shared by the whole package\<close>

text \<open>
  A Go \<^verbatim>\<open>error\<close> is either made from a message (\<^verbatim>\<open>errors.New\<close>,
  \<^verbatim>\<open>fmt.Errorf\<close> without \<^verbatim>\<open>%w\<close>) or wraps another error and appends text to
  its message (\<^verbatim>\<open>fmt.Errorf("%w: ...", e)\<close>).
\<close>

datatype error = New string | Wrap error string

fun Error :: "error \<Rightarrow> string" where
  "Error (New s) = s"
| "Error (Wrap e s) = Error e @ s"

fun Is :: "error \<Rightarrow> error \<Rightarrow> bool" where
  "Is (New s) target = (New s = target)"
| "Is (Wrap e s) target = (Wrap e s = target \<or> Is e target)"

text \<open>A panic carries a string or an error value (possibly the nil error).\<close>

datatype panicval = PString string | PError "error option"

text \<open>
  Every Go call either returns its results or panics. A function with the results
  \<^verbatim>\<open>(string, error)\<close> is modelled with the result type
  \<open>(string \<times> error option) outcome\<close>, \<open>None\<close> being the nil error.
\<close>

datatype 'a outcome = Panic panicval | Returned 'a

section \<open>tools.go: the schema reflector\<close>

subsection \<open>The parts of \<^verbatim>\<open>strings\<close> and \<^verbatim>\<open>reflect\<close> that are used\<close>

text \<open>
  \<^verbatim>\<open>strings.Split(s, ",")\<close> with a one-byte separator: the pieces of \<open>s\<close> between the
  separators, at least one piece (the empty string gives one empty piece).
\<close>

fun Split :: "string \<Rightarrow> char \<Rightarrow> string list" where
  "Split [] c = [[]]"
| "Split (x # xs) c =
     (if x = c then [] # Split xs c
      else (case Split xs c of [] \<Rightarrow> [[x]] | y # ys \<Rightarrow> (x # y) # ys))"

text \<open>\<^verbatim>\<open>strings.HasPrefix\<close> and \<^verbatim>\<open>strings.Contains\<close>.\<close>

fun HasPrefix :: "string \<Rightarrow> string \<Rightarrow> bool" where
  "HasPrefix s [] = True"
| "HasPrefix [] (y # ys) = False"
| "HasPrefix (x # xs) (y # ys) = (x = y \<and> HasPrefix xs ys)"

fun Contains :: "string \<Rightarrow> string \<Rightarrow> bool" where
  "Contains [] sub = (sub = [])"
| "Contains (x # xs) sub = (HasPrefix (x # xs) sub \<or> Contains xs sub)"

text \<open>
  A \<^verbatim>\<open>reflect.StructTag\<close> is read only through \<^verbatim>\<open>Lookup\<close> and \<^verbatim>\<open>Get\<close>; it is
  modelled by its key/value pairs in the order they are written, the first pair of a key
  being the one \<^verbatim>\<open>Lookup\<close> finds. \<^verbatim>\<open>Get\<close> gives the empty string for a missing key.
\<close>

type_synonym StructTag = "(string \<times> string) list"

definition Lookup :: "StructTag \<Rightarrow> string \<Rightarrow> string option" where
  "Lookup tag key = map_of tag key"

definition Get :: "StructTag \<Rightarrow> string \<Rightarrow> string" where
  "Get tag key = (case Lookup tag key of None \<Rightarrow> [] | Some v \<Rightarrow> v)"

text \<open>The kinds of \<^verbatim>\<open>reflect.Kind\<close>.\<close>

datatype reflect_Kind =
    KInvalid | KBool | KInt | KInt8 | KInt16 | KInt32 | KInt64
  | KUint | KUint8 | KUint16 | KUint32 | KUint64 | KUintptr
  | KFloat32 | KFloat64 | KComplex64 | KComplex128
  | KArray | KChan | KFunc | KInterface | KMap | KPointer | KSlice | KString | KStruct
  | KUnsafePointer

text \<open>
  A \<^verbatim>\<open>reflect.Type\<close>, as a finite tree: one constructor for each kind a type can
  have, with the component types the package reads (the fields of a struct, the element
  of a slice, the arguments and results of a function). An interface type records whether
  it implements \<^verbatim>\<open>error\<close>.
\<close>

datatype reflect_Type =
    TBool | TInt | TInt8 | TInt16 | TInt32 | TInt64
  | TUint | TUint8 | TUint16 | TUint32 | TUint64 | TUintptr
  | TFloat32 | TFloat64 | TComplex64 | TComplex128
  | TArray nat reflect_Type
  | TChan reflect_Type
  | TFunc "reflect_Type list" "reflect_Type list"
  | TInterface bool
  | TMap reflect_Type reflect_Type
  | TPointer reflect_Type
  | TSlice reflect_Type
  | TString
  | TStruct "StructField list"
  | TUnsafePointer
and StructField = StructField (FieldName: string) (FieldType: reflect_Type) (FieldTag: StructTag)

fun Kind :: "reflect_Type \<Rightarrow> reflect_Kind" where
  "Kind TBool = KBool"
| "Kind TInt = KInt"
| "Kind TInt8 = KInt8"
| "Kind TInt16 = KInt16"
| "Kind TInt32 = KInt32"
| "Kind TInt64 = KInt64"
| "Kind TUint = KUint"
| "Kind TUint8 = KUint8"
| "Kind TUint16 = KUint16"
| "Kind TUint32 = KUint32"
| "Kind TUint64 = KUint64"
| "Kind TUintptr = KUintptr"
| "Kind TFloat32 = KFloat32"
| "Kind TFloat64 = KFloat64"
| "Kind TComplex64 = KComplex64"
| "Kind TComplex128 = KComplex128"
| "Kind (TArray n t) = KArray"
| "Kind (TChan t) = KChan"
| "Kind (TFunc ins outs) = KFunc"
| "Kind (TInterface e) = KInterface"
| "Kind (TMap k v) = KMap"
| "Kind (TPointer t) = KPointer"
| "Kind (TSlice t) = KSlice"
| "Kind TString = KString"
| "Kind (TStruct fs) = KStruct"
| "Kind TUnsafePointer = KUnsafePointer"

subsection \<open>fieldSpec, parseTag and readSpec\<close>

text \<open>
  \<^verbatim>\<open>fieldSpec\<close>. \<open>Properties\<close> is the Go map as an association list without duplicate
  keys (an assignment to an existing key replaces its value); \<open>Items\<close> is the pointer,
  \<open>None\<close> for nil; a nil slice is the empty list.
\<close>

datatype fieldSpec = FieldSpec
  (Type: string)
  (Properties: "(string \<times> fieldSpec) list")
  (Items: "fieldSpec option")
  (Description: string)
  (Required: "string list")
  (Enum: "string list")

fun parseTag :: "fieldSpec \<Rightarrow> StructTag \<Rightarrow> fieldSpec" where
  "parseTag (FieldSpec ty ps it d rq en) tag =
     (let d' = (case Lookup tag ''desc'' of Some v \<Rightarrow> v | None \<Rightarrow> d);
          en' = (case Lookup tag ''enum'' of Some e \<Rightarrow> Split e CHR '','' | None \<Rightarrow> en)
      in FieldSpec ty ps it d' rq en')"

text \<open>
  \<open>readSpec\<close> with the loop over the fields of a struct as \<open>readFields\<close>, which takes
  the fields not yet visited and the \<open>s\<close> built so far. A panic of a nested call ends
  the whole derivation.
\<close>

fun readSpec :: "reflect_Type \<Rightarrow> fieldSpec outcome"
and readFields :: "StructField list \<Rightarrow> fieldSpec \<Rightarrow> fieldSpec outcome" where
  "readSpec (TStruct fields) = readFields fields (FieldSpec ''object'' [] None [] [] [])"
| "readSpec (TSlice elem) =
     (case readSpec elem of
        Panic p \<Rightarrow> Panic p
      | Returned itemSpec \<Rightarrow> Returned (FieldSpec ''array'' [] (Some itemSpec) [] [] []))"
| "readSpec TString = Returned (FieldSpec ''string'' [] None [] [] [])"
| "readSpec TInt = Returned (FieldSpec ''integer'' [] None [] [] [])"
| "readSpec TFloat32 = Returned (FieldSpec ''number'' [] None [] [] [])"
| "readSpec TBool = Returned (FieldSpec ''boolean'' [] None [] [] [])"
| "readSpec _ = Panic (PString ''unsupported type'')"
| "readFields [] s = Returned s"
| "readFields (StructField fname ftype ftag # rest) s =
     (let jt = Get ftag ''json'';
          name = (if jt \<noteq> [] then hd (Split jt CHR '','') else fname);
          required = (if jt \<noteq> [] \<and> \<not> Contains jt ''omitempty''
                      then Required s @ [name] else Required s)
      in case readSpec ftype of
           Panic p \<Rightarrow> Panic p
         | Returned fs \<Rightarrow>
             readFields rest
               (FieldSpec (Type s) (AList.update name (parseTag fs ftag) (Properties s))
                  (Items s) (Description s) required (Enum s)))"

subsection \<open>The json tag as the specification reads it\<close>




section \<open>tools.go: the tool adapter\<close>

text \<open>
  \<^verbatim>\<open>encoding/json\<close> is outside the package. It is a parameter of the model: decoding a
  text into a fresh value of a given type, encoding a value, and encoding a
  \<^verbatim>\<open>fieldSpec\<close>, each giving the library's error (\<open>Inl\<close>) or its result. Go values are
  a type parameter \<open>'v\<close>.
\<close>

record 'v encoding_json =
  Unmarshal :: "string \<Rightarrow> reflect_Type \<Rightarrow> error + 'v"
  MarshalIndent :: "'v \<Rightarrow> error + string"
  MarshalIndentSpec :: "fieldSpec \<Rightarrow> error + string"

text \<open>
  The value \<open>f\<close> given to \<^verbatim>\<open>MakeTool\<close>: what \<^verbatim>\<open>reflect.TypeOf\<close> says of it and what
  \<^verbatim>\<open>reflect.ValueOf(f).Call\<close> does with one argument, which is to return the two
  results or to panic.
\<close>

record 'v go_func =
  TypeOf :: reflect_Type
  Call :: "'v \<Rightarrow> ('v \<times> error option) outcome"

record Tool =
  Name :: string
  Description :: string
  Parameters :: string
  Handler :: "string \<Rightarrow> (string \<times> error option) outcome"

text \<open>
  \<^verbatim>\<open>Type.Implements\<close> of the \<^verbatim>\<open>error\<close> interface; \<^verbatim>\<open>MakeTool\<close> asks it of interface
  types only.
\<close>

fun Implements_error :: "reflect_Type \<Rightarrow> bool" where
  "Implements_error (TInterface e) = e"
| "Implements_error _ = False"

text \<open>
  The closure that \<^verbatim>\<open>MakeTool\<close> stores as \<^verbatim>\<open>Handler\<close>; \<open>argType\<close> is \<^verbatim>\<open>t.In(0)\<close>.
  The named result \<open>err\<close> of the closure is nil from the start and is never assigned (the
  \<open>err\<close> of the decoding step is a variable of the \<^verbatim>\<open>if\<close> statement), and it is this
  \<open>err\<close> that the test before \<^verbatim>\<open>panic(jerr)\<close> reads. \<^verbatim>\<open>json.MarshalIndent\<close> returns nil
  bytes with an error, so \<^verbatim>\<open>string(b)\<close> is then the empty string.
\<close>

definition MakeTool_Handler ::
  "'v encoding_json \<Rightarrow> 'v go_func \<Rightarrow> reflect_Type \<Rightarrow> string \<Rightarrow> (string \<times> error option) outcome"
where
  "MakeTool_Handler J f argType input =
     (let err = (None :: error option) in
      case Unmarshal J input argType of
        Inl derr \<Rightarrow> Returned ([], Some derr)
      | Inr v \<Rightarrow>
          (case Call f v of
             Panic p \<Rightarrow> Panic p
           | Returned (res, None) \<Rightarrow>
               (let (b, jerr) = (case MarshalIndent J res of
                                   Inl e \<Rightarrow> ([], Some e)
                                 | Inr text \<Rightarrow> (text, None))
                in if err \<noteq> None then Panic (PError jerr) else Returned (b, None))
           | Returned (res, Some ferr) \<Rightarrow> Returned ([], Some ferr)))"

definition MakeTool ::
  "'v encoding_json \<Rightarrow> 'v go_func \<Rightarrow> string \<Rightarrow> string \<Rightarrow> Tool outcome"
where
  "MakeTool J f name desc =
     (case TypeOf f of
        TFunc ins outs \<Rightarrow>
          if length ins \<noteq> 1 then Panic (PString ''not a function of one argument'')
          else if length outs \<noteq> 2 then Panic (PString ''not a function of two results'')
          else if Kind (outs ! 1) \<noteq> KInterface
            then Panic (PString ''second result is not an error'')
          else if \<not> Implements_error (outs ! 1)
            then Panic (PString ''second result is not an error'')
          else
            (case readSpec (ins ! 0) of
               Panic p \<Rightarrow> Panic p
             | Returned params \<Rightarrow>
                 (case MarshalIndentSpec J params of
                    Inl err \<Rightarrow> Panic (PError (Some err))
                  | Inr b \<Rightarrow>
                      Returned \<lparr>Name = name, Description = desc, Parameters = b,
                                Handler = MakeTool_Handler J f (ins ! 0)\<rparr>))
      | _ \<Rightarrow> Panic (PString ''not a function''))"

section \<open>The default client\<close>

text \<open>
  An \<^verbatim>\<open>*openai.Client\<close> is known by the key it was made from. The process state the
  package reads and writes: the environment variable, the two package variables
  \<^verbatim>\<open>defaultClient\<close> and \<^verbatim>\<open>defaultClientOnce\<close> (whether the \<^verbatim>\<open>sync.Once\<close> has run),
  and the state \<open>'x\<close> of the remote service.
\<close>

datatype Client = NewClient string

record 'x world =
  OPENAI_API_KEY :: string
  defaultClient :: "Client option"
  defaultClientOnce :: bool
  remote :: 'x

definition SetDefaultClient :: "Client option \<Rightarrow> 'x world \<Rightarrow> 'x world" where
  "SetDefaultClient client w = w\<lparr>defaultClient := client\<rparr>"

definition DefaultClient :: "'x world \<Rightarrow> (Client option \<times> error option) \<times> 'x world" where
  "DefaultClient w =
     (let (err, w') =
        (if \<not> defaultClientOnce w then
           (if OPENAI_API_KEY w = []
            then (Some (New ''OPENAI_API_KEY environment variable not set''),
                  w\<lparr>defaultClientOnce := True\<rparr>)
            else (None, w\<lparr>defaultClient := Some (NewClient (OPENAI_API_KEY w)),
                           defaultClientOnce := True\<rparr>))
         else (None, w))
      in ((defaultClient w', err), w'))"

section \<open>The dialogue and the completion loop\<close>

text \<open>
  The types of the client library, with the fields the package reads or writes. A
  \<^verbatim>\<open>ToolCall\<close> has the fields \<^verbatim>\<open>ID\<close>, \<^verbatim>\<open>Type\<close> (here \<open>CallType\<close>) and
  \<^verbatim>\<open>Function\<close>, whose \<^verbatim>\<open>Name\<close> is here \<open>CallName\<close>. A \<^verbatim>\<open>float32\<close> that is only passed
  on is its 32 bits.
\<close>

record FunctionCall =
  CallName :: string
  Arguments :: string

record ToolCall =
  ID :: string
  CallType :: string
  Function :: FunctionCall

record ChatCompletionMessage =
  Role :: string
  Content :: string
  ToolCalls :: "ToolCall list"
  ToolCallID :: string

type_synonym Dialogue = "ChatCompletionMessage list"

type_synonym float32 = "32 word"

record ChatTweaks =
  Temperature :: float32
  TopP :: float32

record openai_Tool =
  ToolType :: string
  FunctionName :: string
  FunctionDescription :: string
  FunctionParameters :: string

record ChatCompletionRequest =
  ReqModel :: string
  ReqMessages :: Dialogue
  ReqTemperature :: float32
  ReqTopP :: float32
  ReqTools :: "openai_Tool list"

record ChatCompletionChoice =
  FinishReason :: string
  Message :: ChatCompletionMessage

record ChatCompletionResponse =
  Choices :: "ChatCompletionChoice list"

text \<open>
  \<^verbatim>\<open>Client.CreateChatCompletion\<close>: the remote service answers a request with an error or
  a response and moves to a new state.
\<close>

type_synonym 'x completion_api =
  "Client \<Rightarrow> ChatCompletionRequest \<Rightarrow> 'x \<Rightarrow> (error + ChatCompletionResponse) \<times> 'x"

definition ChatMessageRoleSystem :: string where "ChatMessageRoleSystem = ''system''"
definition ChatMessageRoleUser :: string where "ChatMessageRoleUser = ''user''"
definition ChatMessageRoleAssistant :: string where "ChatMessageRoleAssistant = ''assistant''"
definition ChatMessageRoleTool :: string where "ChatMessageRoleTool = ''tool''"

definition FinishReasonStop :: string where "FinishReasonStop = ''stop''"
definition FinishReasonLength :: string where "FinishReasonLength = ''length''"
definition FinishReasonFunctionCall :: string where "FinishReasonFunctionCall = ''function_call''"
definition FinishReasonToolCalls :: string where "FinishReasonToolCalls = ''tool_calls''"
definition FinishReasonContentFilter :: string where "FinishReasonContentFilter = ''content_filter''"
definition FinishReasonNull :: string where "FinishReasonNull = ''null''"

definition GPT4TurboPreview :: string where "GPT4TurboPreview = ''gpt-4-turbo-preview''"
definition DEFAULT_CHAT_MODEL :: string where "DEFAULT_CHAT_MODEL = GPT4TurboPreview"

definition ErrContentFilter :: error where
  "ErrContentFilter = New ''response omitted due to content filter''"
definition ErrNotFinished :: error where
  "ErrNotFinished = New ''response generation not finished''"
definition ErrTokenLimit :: error where
  "ErrTokenLimit = New ''token limit reached''"
definition ErrUnexpectedResponse :: error where
  "ErrUnexpectedResponse = New ''unexpected response from OpenAI API''"

text \<open>\<^verbatim>\<open>Chat\<close>; its unexported field \<^verbatim>\<open>c\<close> is \<open>chat_c\<close>.\<close>

record Chat =
  Dialogue :: Dialogue
  Model :: string
  Tweaks :: ChatTweaks
  Tools :: "Tool list"
  chat_c :: "Client option"

definition openaiTool :: "Tool \<Rightarrow> openai_Tool" where
  "openaiTool t = \<lparr>ToolType = ''function'', FunctionName = Name t,
     FunctionDescription = Description t, FunctionParameters = Parameters t\<rparr>"

definition client :: "Chat \<Rightarrow> 'x world \<Rightarrow> (Client option \<times> error option) \<times> 'x world" where
  "client ch w = (case chat_c ch of Some cl \<Rightarrow> ((Some cl, None), w) | None \<Rightarrow> DefaultClient w)"

definition model :: "Chat \<Rightarrow> string" where
  "model ch = (if Model ch \<noteq> [] then Model ch else DEFAULT_CHAT_MODEL)"

definition AssistantSaid :: "string \<Rightarrow> Chat \<Rightarrow> Chat" where
  "AssistantSaid msg ch = ch\<lparr>Dialogue := Dialogue ch @
     [\<lparr>Role = ChatMessageRoleAssistant, Content = msg, ToolCalls = [], ToolCallID = []\<rparr>]\<rparr>"

definition UserSaid :: "string \<Rightarrow> Chat \<Rightarrow> Chat" where
  "UserSaid msg ch = ch\<lparr>Dialogue := Dialogue ch @
     [\<lparr>Role = ChatMessageRoleUser, Content = msg, ToolCalls = [], ToolCallID = []\<rparr>]\<rparr>"

definition ExampleExchange :: "string \<Rightarrow> string \<Rightarrow> Chat \<Rightarrow> Chat" where
  "ExampleExchange input response ch = AssistantSaid response (UserSaid input ch)"

definition Instruction :: "string \<Rightarrow> Chat \<Rightarrow> Chat" where
  "Instruction txt ch = ch\<lparr>Dialogue := Dialogue ch @
     [\<lparr>Role = ChatMessageRoleSystem, Content = txt, ToolCalls = [], ToolCallID = []\<rparr>]\<rparr>"

subsection \<open>Talk\<close>

text \<open>
  The body of the loop over the requested calls, up to the message it appends: the
  search for the tool by name (the first tool with that name is the one invoked), then
  the choice of the content. A handler that panics ends \<^verbatim>\<open>Talk\<close> with that panic.
  Handlers are functions of their input alone: they do not touch the chat or the world.
\<close>

fun findTool :: "Tool list \<Rightarrow> ToolCall \<Rightarrow> (string \<times> error option) outcome" where
  "findTool [] call =
     Returned ([], Some (New (''error: no tool found with name '' @ CallName (Function call))))"
| "findTool (t # ts) call =
     (if Name t = CallName (Function call) then Handler t (Arguments (Function call))
      else findTool ts call)"

definition callTool :: "Tool list \<Rightarrow> ToolCall \<Rightarrow> ChatCompletionMessage outcome" where
  "callTool tools call =
     (case (if CallType call \<noteq> ''function''
            then Returned ([], Some (New (''error: unknown tool call type '' @ CallType call)))
            else findTool tools call) of
        Panic p \<Rightarrow> Panic p
      | Returned (out, toolErr) \<Rightarrow>
          (let content = (case toolErr of Some e \<Rightarrow> Error e | None \<Rightarrow> out)
           in Returned \<lparr>Role = ChatMessageRoleTool, Content = content, ToolCalls = [],
                        ToolCallID = ID call\<rparr>))"

text \<open>
  The loop over the calls: the dialogue after the calls handled so far, and the panic that
  stopped the loop, if one did.
\<close>

fun dispatch :: "Tool list \<Rightarrow> ToolCall list \<Rightarrow> Dialogue \<Rightarrow> panicval option \<times> Dialogue" where
  "dispatch tools [] d = (None, d)"
| "dispatch tools (call # calls) d =
     (case callTool tools call of
        Panic p \<Rightarrow> (Some p, d)
      | Returned msg \<Rightarrow> dispatch tools calls (d @ [msg]))"

text \<open>
  A nil \<^verbatim>\<open>*openai.Client\<close> with a nil error comes back from \<open>DefaultClient\<close> once the
  \<^verbatim>\<open>sync.Once\<close> has run without a key; calling a method on it dereferences nil.
\<close>

definition nilDereference :: panicval where
  "nilDereference = PString ''runtime error: invalid memory address or nil pointer dereference''"

text \<open>The request that each round of the loop sends.\<close>

definition chatRequest :: "openai_Tool list \<Rightarrow> Chat \<Rightarrow> ChatCompletionRequest" where
  "chatRequest tools ch =
     \<lparr>ReqModel = model ch, ReqMessages = Dialogue ch,
      ReqTemperature = Temperature (Tweaks ch), ReqTopP = TopP (Tweaks ch),
      ReqTools = tools\<rparr>"

text \<open>
  The \<^verbatim>\<open>for\<close> loop of \<^verbatim>\<open>Talk\<close>. It has no bound, so it is a partial function: \<open>None\<close>
  is the loop that never ends. A result is what \<^verbatim>\<open>Talk\<close> returned or the panic that
  ended it, with the chat and the world at that moment.
\<close>

partial_function (option) Talk_loop ::
  "'x completion_api \<Rightarrow> openai_Tool list \<Rightarrow> Chat \<Rightarrow> 'x world
     \<Rightarrow> ((string \<times> error option) outcome \<times> Chat \<times> 'x world) option"
where
  "Talk_loop api tools ch w =
     (case client ch w of
        ((cl, Some err), w1) \<Rightarrow> Some (Returned ([], Some err), ch, w1)
      | ((None, None), w1) \<Rightarrow> Some (Panic nilDereference, ch, w1)
      | ((Some cl, None), w1) \<Rightarrow>
          (case api cl (chatRequest tools ch) (remote w1) of
             (Inl err, x) \<Rightarrow> Some (Returned ([], Some err), ch, w1\<lparr>remote := x\<rparr>)
           | (Inr resp, x) \<Rightarrow>
               (case Choices resp of
                  [] \<Rightarrow>
                    Some (Returned ([], Some (Wrap ErrUnexpectedResponse
                                               '': OpenAI API returned no choices'')),
                          ch, w1\<lparr>remote := x\<rparr>)
                | choice # others \<Rightarrow>
                    if FinishReason choice = FinishReasonFunctionCall then
                      Some (Returned ([], Some (Wrap ErrUnexpectedResponse
                                                 '': deprecated function call returned by API'')),
                            ch, w1\<lparr>remote := x\<rparr>)
                    else if FinishReason choice = FinishReasonToolCalls then
                      (if ToolCalls (Message choice) = [] then
                         Some (Returned ([], Some (Wrap ErrUnexpectedResponse
                                                    '': no calls provided'')),
                               ch, w1\<lparr>remote := x\<rparr>)
                       else
                         (case dispatch (Tools ch) (ToolCalls (Message choice))
                                 (Dialogue ch @ [Message choice]) of
                            (Some p, d) \<Rightarrow>
                              Some (Panic p, ch\<lparr>Dialogue := d\<rparr>, w1\<lparr>remote := x\<rparr>)
                          | (None, d) \<Rightarrow>
                              Talk_loop api tools (ch\<lparr>Dialogue := d\<rparr>) (w1\<lparr>remote := x\<rparr>)))
                    else if FinishReason choice = FinishReasonContentFilter then
                      Some (Returned ([], Some ErrContentFilter), ch, w1\<lparr>remote := x\<rparr>)
                    else if FinishReason choice = FinishReasonNull then
                      Some (Returned ([], Some ErrNotFinished), ch, w1\<lparr>remote := x\<rparr>)
                    else
                      Some (Returned (Content (Message choice), None),
                            ch\<lparr>Dialogue := Dialogue ch @ [Message choice]\<rparr>,
                            w1\<lparr>remote := x\<rparr>))))"

definition Talk ::
  "'x completion_api \<Rightarrow> Chat \<Rightarrow> 'x world
     \<Rightarrow> ((string \<times> error option) outcome \<times> Chat \<times> 'x world) option"
where
  "Talk api ch w = Talk_loop api (map openaiTool (Tools ch)) ch w"

subsection \<open>Exchange and MustExchange\<close>

text \<open>
  \<^verbatim>\<open>c.Dialogue[:dlen]\<close> panics when \<open>dlen\<close> is beyond the slice; the model has the
  branch, and \<open>Talk\<close> never gives it a shorter dialogue.
\<close>

definition Exchange ::
  "'x completion_api \<Rightarrow> string \<Rightarrow> Chat \<Rightarrow> 'x world
     \<Rightarrow> ((string \<times> error option) outcome \<times> Chat \<times> 'x world) option"
where
  "Exchange api content ch w =
     (if content = [] then Some (Returned ([], Some (New ''empty content'')), ch, w)
      else
        (let dlen = length (Dialogue ch) in
         case Talk api (UserSaid content ch) w of
           None \<Rightarrow> None
         | Some (Panic p, ch', w') \<Rightarrow> Some (Panic p, ch', w')
         | Some (Returned (resp, Some err), ch', w') \<Rightarrow>
             (if dlen \<le> length (Dialogue ch')
              then Some (Returned ([], Some err), ch'\<lparr>Dialogue := take dlen (Dialogue ch')\<rparr>, w')
              else Some (Panic (PString ''runtime error: slice bounds out of range''), ch', w'))
         | Some (Returned (resp, None), ch', w') \<Rightarrow> Some (Returned (resp, None), ch', w')))"

definition MustExchange ::
  "'x completion_api \<Rightarrow> string \<Rightarrow> Chat \<Rightarrow> 'x world
     \<Rightarrow> (string outcome \<times> Chat \<times> 'x world) option"
where
  "MustExchange api content ch w =
     (case Exchange api content ch w of
        None \<Rightarrow> None
      | Some (Panic p, ch', w') \<Rightarrow> Some (Panic p, ch', w')
      | Some (Returned (resp, Some err), ch', w') \<Rightarrow>
          Some (Panic (PString (''Chat error: '' @ Error err @ [CHR 0x0A])), ch', w')
      | Some (Returned (resp, None), ch', w') \<Rightarrow> Some (Returned resp, ch', w'))"

section \<open>Sample programs\<close>

text \<open>
  Concrete inputs on which the theorems below are run. The Go values are the empty struct,
  a number known by its decimal text, and the floating-point NaN. \<open>sampleJSON\<close> is
  \<^verbatim>\<open>encoding/json\<close> on these: \<^verbatim>\<open>{}\<close> decodes into an empty struct and a run of digits
  into an \<^verbatim>\<open>int\<close>, every other text is refused; NaN has no JSON encoding.
\<close>

datatype sample_value = VStruct | VNum string | VNaN

definition digits :: "string \<Rightarrow> bool" where
  "digits s = (s \<noteq> [] \<and> list_all (\<lambda>ch. ch \<in> set ''0123456789'') s)"

definition sampleJSON :: "sample_value encoding_json" where
  "sampleJSON =
     \<lparr>Unmarshal = (\<lambda>input t.
        if t = TStruct [] \<and> input = ''{}'' then Inr VStruct
        else if t = TInt \<and> digits input then Inr (VNum input)
        else Inl (New ''unexpected end of JSON input'')),
      MarshalIndent = (\<lambda>v. case v of
          VStruct \<Rightarrow> Inr ''{}''
        | VNum n \<Rightarrow> Inr n
        | VNaN \<Rightarrow> Inl (New ''json: unsupported value: NaN'')),
      MarshalIndentSpec = (\<lambda>s. Inr (''{\"type\": \"'' @ Type s @ ''\"}''))\<rparr>"

text \<open>
  The functions \<^verbatim>\<open>trivial\<close>, \<^verbatim>\<open>trivialError\<close> and \<^verbatim>\<open>primitive\<close> of the package's test, and
  \<^verbatim>\<open>func(struct{}) (float64, error) { return math.NaN(), nil }\<close>.
\<close>

definition trivial :: "sample_value go_func" where
  "trivial = \<lparr>TypeOf = TFunc [TStruct []] [TStruct [], TInterface True],
               Call = (\<lambda>v. Returned (VStruct, None))\<rparr>"

definition trivialError :: "sample_value go_func" where
  "trivialError = \<lparr>TypeOf = TFunc [TStruct []] [TStruct [], TInterface True],
                    Call = (\<lambda>v. Returned (VStruct, Some (New ''trivial error'')))\<rparr>"

definition primitive :: "sample_value go_func" where
  "primitive = \<lparr>TypeOf = TFunc [TInt] [TInt, TInterface True],
                 Call = (\<lambda>v. Returned (v, None))\<rparr>"

definition notANumber :: "sample_value go_func" where
  "notANumber = \<lparr>TypeOf = TFunc [TStruct []] [TFloat64, TInterface True],
                  Call = (\<lambda>v. Returned (VNaN, None))\<rparr>"

text \<open>A function whose argument is a map, which no schema describes.\<close>

definition countWords :: "sample_value go_func" where
  "countWords = \<lparr>TypeOf = TFunc [TMap TString TInt] [TInt, TInterface True],
                  Call = (\<lambda>v. Returned (v, None))\<rparr>"

text \<open>The tools that \<^verbatim>\<open>MakeTool\<close> makes of \<open>trivialError\<close> and \<open>notANumber\<close>.\<close>

definition trivialErrorTool :: Tool where
  "trivialErrorTool =
     \<lparr>Name = ''trivialError'', Description = ''Trivial tool with error.'',
      Parameters = ''{\"type\": \"object\"}'',
      Handler = MakeTool_Handler sampleJSON trivialError (TStruct [])\<rparr>"

definition notANumberTool :: Tool where
  "notANumberTool =
     \<lparr>Name = ''notANumber'', Description = ''Not a number.'',
      Parameters = ''{\"type\": \"object\"}'',
      Handler = MakeTool_Handler sampleJSON notANumber (TStruct [])\<rparr>"









text \<open>
  A remote service that plays a script: its state is the answers still to give, and it
  fails once the script is over.
\<close>

definition scriptedApi :: "(error + ChatCompletionResponse) list completion_api" where
  "scriptedApi cl req script =
     (case script of [] \<Rightarrow> (Inl (New ''EOF''), []) | r # rest \<Rightarrow> (r, rest))"

definition sampleWorld :: "'x \<Rightarrow> 'x world" where
  "sampleWorld x = \<lparr>OPENAI_API_KEY = ''sk-sample'', defaultClient = None,
                     defaultClientOnce = False, remote = x\<rparr>"

definition sampleChat :: "Tool list \<Rightarrow> Chat" where
  "sampleChat tools =
     \<lparr>Dialogue = [\<lparr>Role = ChatMessageRoleSystem, Content = ''You are GM of a role playing game.'',
                    ToolCalls = [], ToolCallID = []\<rparr>],
      Model = [], Tweaks = \<lparr>Temperature = 0, TopP = 0\<rparr>, Tools = tools, chat_c = None\<rparr>"

definition sampleCall :: "string \<Rightarrow> string \<Rightarrow> ToolCall" where
  "sampleCall name args =
     \<lparr>ID = ''call_1'', CallType = ''function'',
      Function = \<lparr>CallName = name, Arguments = args\<rparr>\<rparr>"

definition toolCallsResponse :: "ToolCall list \<Rightarrow> ChatCompletionResponse" where
  "toolCallsResponse calls =
     \<lparr>Choices = [\<lparr>FinishReason = FinishReasonToolCalls,
                   Message = \<lparr>Role = ChatMessageRoleAssistant, Content = [],
                              ToolCalls = calls, ToolCallID = []\<rparr>\<rparr>]\<rparr>"

definition textResponse :: "string \<Rightarrow> string \<Rightarrow> ChatCompletionResponse" where
  "textResponse reason text =
     \<lparr>Choices = [\<lparr>FinishReason = reason,
                   Message = \<lparr>Role = ChatMessageRoleAssistant, Content = text,
                              ToolCalls = [], ToolCallID = []\<rparr>\<rparr>]\<rparr>"

text \<open>
  The world once the default client has been made and the script has been played to the
  end, and the sample chat with a dialogue put in place of its own.
\<close>

definition settledWorld :: "'x \<Rightarrow> 'x world" where
  "settledWorld x = \<lparr>OPENAI_API_KEY = ''sk-sample'', defaultClient = Some (NewClient ''sk-sample''),
                      defaultClientOnce = True, remote = x\<rparr>"

definition sampleChatWith :: "Dialogue \<Rightarrow> Chat" where
  "sampleChatWith d = \<lparr>Dialogue = d, Model = [], Tweaks = \<lparr>Temperature = 0, TopP = 0\<rparr>,
                        Tools = [], chat_c = None\<rparr>"

definition systemMessage :: ChatCompletionMessage where
  "systemMessage = \<lparr>Role = ChatMessageRoleSystem, Content = ''You are GM of a role playing game.'',
                     ToolCalls = [], ToolCallID = []\<rparr>"

definition userMessage :: ChatCompletionMessage where
  "userMessage = \<lparr>Role = ChatMessageRoleUser, Content = ''I swing my sword.'',
                   ToolCalls = [], ToolCallID = []\<rparr>"

definition rollDieRequest :: ChatCompletionMessage where
  "rollDieRequest = \<lparr>Role = ChatMessageRoleAssistant, Content = [],
                      ToolCalls = [sampleCall ''rollDie'' ''{}''], ToolCallID = []\<rparr>"

definition rollDieMissing :: ChatCompletionMessage where
  "rollDieMissing = \<lparr>Role = ChatMessageRoleTool,
                      Content = ''error: no tool found with name rollDie'',
                      ToolCalls = [], ToolCallID = ''call_1''\<rparr>"

definition youHit :: ChatCompletionMessage where
  "youHit = \<lparr>Role = ChatMessageRoleAssistant, Content = ''You hit.'',
              ToolCalls = [], ToolCallID = []\<rparr>"

section \<open>Lemmas about the model\<close>

lemmas finish_defs = FinishReasonStop_def FinishReasonLength_def FinishReasonFunctionCall_def
  FinishReasonToolCalls_def FinishReasonContentFilter_def FinishReasonNull_def

lemmas sample_defs = sampleChat_def sampleWorld_def sampleCall_def toolCallsResponse_def
  textResponse_def scriptedApi_def client_def DefaultClient_def chatRequest_def
  callTool_def UserSaid_def Talk_def settledWorld_def sampleChatWith_def systemMessage_def
  userMessage_def rollDieRequest_def rollDieMissing_def youHit_def











text \<open>What a tool that \<^verbatim>\<open>MakeTool\<close> returned is made of.\<close>

lemma MakeTool_Returned:
  assumes "MakeTool J f name desc = Returned tool" and "TypeOf f = TFunc ins outs"
  shows "Name tool = name \<and> Description tool = desc
         \<and> Handler tool = MakeTool_Handler J f (ins ! 0)"
  using assms
  by (auto simp: MakeTool_def split: if_splits outcome.splits sum.splits)

lemma MakeTool_trivialError:
  "MakeTool sampleJSON trivialError ''trivialError'' ''Trivial tool with error.''
     = Returned trivialErrorTool"
  by (simp add: MakeTool_def trivialError_def trivialErrorTool_def sampleJSON_def)

lemma MakeTool_notANumber:
  "MakeTool sampleJSON notANumber ''notANumber'' ''Not a number.'' = Returned notANumberTool"
  by (simp add: MakeTool_def notANumber_def notANumberTool_def sampleJSON_def)

text \<open>Two cases of the package's test: \<^verbatim>\<open>trivial\<close> on \<^verbatim>\<open>{}\<close> and \<^verbatim>\<open>primitive\<close> on \<^verbatim>\<open>42\<close>.\<close>

lemma test_trivial:
  "(case MakeTool sampleJSON trivial ''trivial'' ''Trivial tool.'' of
      Panic p \<Rightarrow> Panic p | Returned tool \<Rightarrow> Handler tool ''{}'') = Returned (''{}'', None)"
  by (simp add: MakeTool_def trivial_def sampleJSON_def MakeTool_Handler_def)

lemma test_primitive:
  "(case MakeTool sampleJSON primitive ''primitive''
           ''Function taking and returning a primitive.'' of
      Panic p \<Rightarrow> Panic p | Returned tool \<Rightarrow> Handler tool ''42'') = Returned (''42'', None)"
  by (simp add: MakeTool_def primitive_def sampleJSON_def MakeTool_Handler_def digits_def)


text \<open>The loop over the calls only appends; when no handler panics it appends one message a call.\<close>

lemma dispatch_extends: "dispatch tools calls d = (p, d') \<Longrightarrow> \<exists>ext. d' = d @ ext"
proof (induction calls arbitrary: d)
  case Nil
  then show ?case by simp
next
  case (Cons call calls)
  show ?case
  proof (cases "callTool tools call")
    case (Panic q)
    with Cons.prems show ?thesis by simp
  next
    case (Returned msg)
    with Cons.prems have "dispatch tools calls (d @ [msg]) = (p, d')" by simp
    from Cons.IH [OF this] obtain ext where "d' = (d @ [msg]) @ ext" ..
    then have "d' = d @ (msg # ext)" by simp
    then show ?thesis ..
  qed
qed


text \<open>
  Whatever way the loop of \<open>Talk\<close> ends, it has changed nothing of the chat but the
  dialogue, and the dialogue only by appending. The proof is by the induction rule of the
  partial function: each round appends and then either stops or goes on.
\<close>

lemma Talk_loop_extends_aux:
  assumes "Talk_loop api tools ch w = Some y"
  shows "\<exists>ext. fst (snd y) = ch\<lparr>Dialogue := Dialogue ch @ ext\<rparr>"
proof (rule Talk_loop.raw_induct
    [where P = "\<lambda>api tools ch w y. \<exists>ext. fst (snd y) = ch\<lparr>Dialogue := Dialogue ch @ ext\<rparr>",
      OF _ assms], goal_cases)
  case (1 f api tools ch w y)
  note IH = "1"(1) and body = "1"(2)
  have same: "\<exists>ext. ch = ch\<lparr>Dialogue := Dialogue ch @ ext\<rparr>"
    by (rule exI [of _ "[]"]) simp
  have one: "\<And>m. \<exists>ext. ch\<lparr>Dialogue := Dialogue ch @ [m]\<rparr> = ch\<lparr>Dialogue := Dialogue ch @ ext\<rparr>"
    by blast
  have more: "\<exists>ext. fst (snd y') = ch\<lparr>Dialogue := Dialogue ch @ ext\<rparr>"
    if d: "dispatch tls calls (Dialogue ch @ [m]) = (p, d)"
      and y': "y' = (r, ch\<lparr>Dialogue := d\<rparr>, w') \<or> f api tools (ch\<lparr>Dialogue := d\<rparr>) w' = Some y'"
    for tls calls m p d y' r w'
  proof -
    from dispatch_extends [OF d] obtain e where e: "d = (Dialogue ch @ [m]) @ e" ..
    from y' show ?thesis
    proof
      assume "y' = (r, ch\<lparr>Dialogue := d\<rparr>, w')"
      with e have "fst (snd y') = ch\<lparr>Dialogue := Dialogue ch @ (m # e)\<rparr>" by simp
      then show ?thesis ..
    next
      assume "f api tools (ch\<lparr>Dialogue := d\<rparr>) w' = Some y'"
      from IH [OF this] obtain ext
        where "fst (snd y') = ch\<lparr>Dialogue := d\<rparr>\<lparr>Dialogue := Dialogue (ch\<lparr>Dialogue := d\<rparr>) @ ext\<rparr>" ..
      with e have "fst (snd y') = ch\<lparr>Dialogue := Dialogue ch @ (m # e @ ext)\<rparr>" by simp
      then show ?thesis ..
    qed
  qed
  from body show ?case
    by (auto split: prod.splits option.splits sum.splits list.splits if_splits
        intro: same one more)
qed

lemma Talk_extends:
  assumes "Talk api ch w = Some (r, ch', w')"
  shows "\<exists>ext. Dialogue ch' = Dialogue ch @ ext"
proof -
  from assms Talk_loop_extends_aux [of api "map openaiTool (Tools ch)" ch w "(r, ch', w')"]
  obtain ext where "ch' = ch\<lparr>Dialogue := Dialogue ch @ ext\<rparr>"
    by (auto simp: Talk_def)
  then have "Dialogue ch' = Dialogue ch @ ext" by simp
  then show ?thesis ..
qed

text \<open>The sample chat gets the default client from the environment.\<close>

lemma client_sample:
  "client (sampleChat tls) (sampleWorld x) = ((Some (NewClient ''sk-sample''), None), settledWorld x)"
  by (simp add: client_def sampleChat_def sampleWorld_def DefaultClient_def settledWorld_def)

text \<open>
  Two runs of \<open>Exchange\<close> on the sample chat, which has no tools. In both the model first
  asks for the tool \<^verbatim>\<open>rollDie\<close>; then the remote call fails, or the model answers.
\<close>

lemma Exchange_sample_failure:
  "Exchange scriptedApi ''I swing my sword.'' (sampleChat [])
     (sampleWorld [Inr (toolCallsResponse [sampleCall ''rollDie'' ''{}'']),
                   Inl (New ''connection reset'')])
   = Some (Returned ([], Some (New ''connection reset'')),
           sampleChatWith [systemMessage], settledWorld [])"
  by (simp add: Exchange_def sample_defs Talk_loop.simps finish_defs)

lemma Exchange_sample_success:
  "Exchange scriptedApi ''I swing my sword.'' (sampleChat [])
     (sampleWorld [Inr (toolCallsResponse [sampleCall ''rollDie'' ''{}'']),
                   Inr (textResponse FinishReasonStop ''You hit.'')])
   = Some (Returned (''You hit.'', None),
           sampleChatWith [systemMessage, userMessage, rollDieRequest, rollDieMissing, youHit],
           settledWorld [])"
  by (simp add: Exchange_def sample_defs Talk_loop.simps finish_defs)

section \<open>The claims\<close>

subsection \<open>C10: Exchange with empty content\<close>

text \<open>
  Claim C10. \<open>Exchange\<close> called with the empty string returns the error "empty content" at
  once: the chat is returned as it was, so no message was appended, and the world is
  returned as it was whatever the remote service is, so no completion call was made.
\<close>

theorem Exchange_empty_content:
  "Exchange api [] ch w = Some (Returned ([], Some (New ''empty content'')), ch, w)"
  by (simp add: Exchange_def)

subsection \<open>C1: Exchange is atomic\<close>

text \<open>
  Claim C1. When \<open>Exchange\<close> returns an error, whichever check or round of the loop it
  came from and however many messages were appended meanwhile, the dialogue after the call
  is the dialogue before it, in length and in content. When \<open>Exchange\<close> returns a response,
  the dialogue after the call is the dialogue before it followed by the user's message and
  the messages of the loop. (A call that panics returns nothing, and a call whose loop never
  ends returns nothing: the claim is about the calls that return.)
\<close>

theorem Exchange_atomic:
  "(Exchange api content ch w = Some (Returned (resp, Some err), ch', w') \<longrightarrow>
      Dialogue ch' = Dialogue ch \<and> length (Dialogue ch') = length (Dialogue ch))
   \<and> (Exchange api content ch w = Some (Returned (resp, None), ch', w') \<longrightarrow>
      (\<exists>rest. Dialogue ch' =
         Dialogue ch @ \<lparr>Role = ChatMessageRoleUser, Content = content, ToolCalls = [],
                        ToolCallID = []\<rparr> # rest))"
proof (cases "content = []")
  case True
  then show ?thesis by (simp add: Exchange_def)
next
  case False
  show ?thesis
  proof (cases "Talk api (UserSaid content ch) w")
    case None
    with False show ?thesis by (simp add: Exchange_def)
  next
    case (Some y)
    obtain r ch2 w2 where y: "y = (r, ch2, w2)" by (cases y)
    from Talk_extends [of api "UserSaid content ch" w r ch2 w2] Some y
    obtain ext where "Dialogue ch2 = Dialogue (UserSaid content ch) @ ext" by auto
    then have d: "Dialogue ch2 =
        Dialogue ch @ \<lparr>Role = ChatMessageRoleUser, Content = content, ToolCalls = [],
                       ToolCallID = []\<rparr> # ext"
      by (simp add: UserSaid_def)
    from False Some y d show ?thesis
      by (auto simp: Exchange_def Let_def split: outcome.splits option.splits if_splits)
  qed
qed

text \<open>
  The two sample runs: after the failed run, in which the user's message, the assistant's
  request and the tool's reply had been appended, the dialogue is the one system message
  again; after the run that succeeds, the five messages are there.
\<close>

theorem Exchange_atomic_witness:
  "Exchange scriptedApi ''I swing my sword.'' (sampleChat [])
     (sampleWorld [Inr (toolCallsResponse [sampleCall ''rollDie'' ''{}'']),
                   Inl (New ''connection reset'')])
     = Some (Returned ([], Some (New ''connection reset'')),
             sampleChatWith [systemMessage], settledWorld [])
   \<and> Dialogue (sampleChatWith [systemMessage]) = Dialogue (sampleChat [])
   \<and> Exchange scriptedApi ''I swing my sword.'' (sampleChat [])
     (sampleWorld [Inr (toolCallsResponse [sampleCall ''rollDie'' ''{}'']),
                   Inr (textResponse FinishReasonStop ''You hit.'')])
     = Some (Returned (''You hit.'', None),
           sampleChatWith [systemMessage, userMessage, rollDieRequest, rollDieMissing, youHit],
           settledWorld [])
   \<and> (\<exists>rest.
        Dialogue (sampleChatWith [systemMessage, userMessage, rollDieRequest, rollDieMissing, youHit])
        = Dialogue (sampleChat []) @
            \<lparr>Role = ChatMessageRoleUser, Content = ''I swing my sword.'', ToolCalls = [],
              ToolCallID = []\<rparr> # rest)"
proof -
  note f = Exchange_atomic [THEN conjunct1, rule_format, OF Exchange_sample_failure]
  note s = Exchange_atomic [THEN conjunct2, rule_format, OF Exchange_sample_success]
  from f s Exchange_sample_failure Exchange_sample_success show ?thesis by simp
qed

subsection \<open>C2: the required fields of a struct\<close>




subsection \<open>C3: the errors the handler returns\<close>

text \<open>
  Claim C3. For a tool that \<open>MakeTool\<close> returned and any input: when the input does not
  decode into the argument type, the handler returns the empty string and the decoding
  error; when the wrapped function returns an error, the handler returns the empty string
  and that error, and the function's value is dropped. In both cases the handler returns:
  it does not panic.
\<close>

theorem Handler_returns_errors:
  assumes "MakeTool J f name desc = Returned tool" and "TypeOf f = TFunc [argType] outs"
  shows "(Unmarshal J input argType = Inl derr \<longrightarrow>
            Handler tool input = Returned ([], Some derr))
       \<and> (Unmarshal J input argType = Inr v \<and> Call f v = Returned (res, Some ferr) \<longrightarrow>
            Handler tool input = Returned ([], Some ferr))"
  using MakeTool_Returned [OF assms]
  by (simp add: MakeTool_Handler_def)

text \<open>The tool \<^verbatim>\<open>trivialError\<close> of the package's test, on a broken input and on \<^verbatim>\<open>{}\<close>.\<close>

theorem Handler_returns_errors_witness:
  "Handler trivialErrorTool ''{'' = Returned ([], Some (New ''unexpected end of JSON input''))
   \<and> Handler trivialErrorTool ''{}'' = Returned ([], Some (New ''trivial error''))"
proof -
  have t: "TypeOf trivialError = TFunc [TStruct []] [TStruct [], TInterface True]"
    by (simp add: trivialError_def)
  have d: "Unmarshal sampleJSON ''{'' (TStruct []) = Inl (New ''unexpected end of JSON input'')"
    by (simp add: sampleJSON_def)
  have c: "Unmarshal sampleJSON ''{}'' (TStruct []) = Inr VStruct
           \<and> Call trivialError VStruct = Returned (VStruct, Some (New ''trivial error''))"
    by (simp add: sampleJSON_def trivialError_def)
  from Handler_returns_errors [OF MakeTool_trivialError t, of "''{''"] d
    Handler_returns_errors [OF MakeTool_trivialError t, of "''{}''" _ VStruct VStruct] c
  show ?thesis by simp
qed

subsection \<open>C4: a result that cannot be encoded\<close>

text \<open>
  Claim C4 says that when the wrapped function succeeds and its result cannot be encoded
  as JSON, the error is reported to the model as the content of the tool's message. The
  handler binds the encoding error to \<open>jerr\<close> and then tests the closure's named result
  \<open>err\<close>, which is nil, so the error is neither returned nor raised: it is dropped. On the
  sample tool whose function returns NaN the encoding fails with
  "json: unsupported value: NaN", the handler returns the empty string and a nil error,
  and in the run of \<open>Talk\<close> the tool's message has the empty content where the claim has
  the error text; the model is then asked again and answers.
\<close>

theorem encode_failure_drops_error:
  "MakeTool sampleJSON notANumber ''notANumber'' ''Not a number.'' = Returned notANumberTool
   \<and> Unmarshal sampleJSON ''{}'' (TStruct []) = Inr VStruct
   \<and> Call notANumber VStruct = Returned (VNaN, None)
   \<and> MarshalIndent sampleJSON VNaN = Inl (New ''json: unsupported value: NaN'')
   \<and> Handler notANumberTool ''{}'' = Returned ([], None)
   \<and> callTool [notANumberTool] (sampleCall ''notANumber'' ''{}'') =
        Returned \<lparr>Role = ChatMessageRoleTool, Content = [], ToolCalls = [],
                  ToolCallID = ''call_1''\<rparr>
   \<and> Talk scriptedApi (sampleChat [notANumberTool])
        (sampleWorld [Inr (toolCallsResponse [sampleCall ''notANumber'' ''{}'']),
                      Inr (textResponse FinishReasonStop ''Done.'')])
      = Some (Returned (''Done.'', None),
              (sampleChat [notANumberTool])\<lparr>Dialogue :=
                 [systemMessage,
                  \<lparr>Role = ChatMessageRoleAssistant, Content = [],
                   ToolCalls = [sampleCall ''notANumber'' ''{}''], ToolCallID = []\<rparr>,
                  \<lparr>Role = ChatMessageRoleTool, Content = [], ToolCalls = [],
                   ToolCallID = ''call_1''\<rparr>,
                  \<lparr>Role = ChatMessageRoleAssistant, Content = ''Done.'', ToolCalls = [],
                   ToolCallID = []\<rparr>]\<rparr>,
              settledWorld [])"
proof -
  have h: "Handler notANumberTool ''{}'' = Returned ([], None)"
    by (simp add: notANumberTool_def notANumber_def sampleJSON_def MakeTool_Handler_def)
  have n: "Name notANumberTool = ''notANumber''" by (simp add: notANumberTool_def)
  have c: "callTool [notANumberTool] (sampleCall ''notANumber'' ''{}'') =
        Returned \<lparr>Role = ChatMessageRoleTool, Content = [], ToolCalls = [],
                  ToolCallID = ''call_1''\<rparr>"
    by (simp add: callTool_def sampleCall_def n h)
  have t: "Talk scriptedApi (sampleChat [notANumberTool])
        (sampleWorld [Inr (toolCallsResponse [sampleCall ''notANumber'' ''{}'']),
                      Inr (textResponse FinishReasonStop ''Done.'')])
      = Some (Returned (''Done.'', None),
              (sampleChat [notANumberTool])\<lparr>Dialogue :=
                 [systemMessage,
                  \<lparr>Role = ChatMessageRoleAssistant, Content = [],
                   ToolCalls = [sampleCall ''notANumber'' ''{}''], ToolCallID = []\<rparr>,
                  \<lparr>Role = ChatMessageRoleTool, Content = [], ToolCalls = [],
                   ToolCallID = ''call_1''\<rparr>,
                  \<lparr>Role = ChatMessageRoleAssistant, Content = ''Done.'', ToolCalls = [],
                   ToolCallID = []\<rparr>]\<rparr>,
              settledWorld [])"
    by (simp add: Talk_def Talk_loop.simps finish_defs sampleChat_def sampleWorld_def
        toolCallsResponse_def textResponse_def scriptedApi_def client_def DefaultClient_def
        chatRequest_def settledWorld_def systemMessage_def c)
  show ?thesis
    using h c t
    by (simp add: MakeTool_notANumber) (simp add: notANumber_def sampleJSON_def)
qed

subsection \<open>C5: the primitive kinds\<close>

text \<open>
  Claim C5 says that every width of signed integer and of floating point is given a
  schema. The switch of \<open>readSpec\<close> has the cases \<^verbatim>\<open>reflect.Int\<close> and \<^verbatim>\<open>reflect.Float32\<close>
  only: \<^verbatim>\<open>int64\<close> and \<^verbatim>\<open>float64\<close> fall to the default case and panic.
\<close>

theorem wider_kinds_counterexample:
  "Kind TInt64 = KInt64 \<and> readSpec TInt64 = Panic (PString ''unsupported type'')
   \<and> Kind TFloat64 = KFloat64 \<and> readSpec TFloat64 = Panic (PString ''unsupported type'')"
  by simp

text \<open>
  Claim C5, amended. For an argument type of primitive kind, the derivation gives the
  schema type "string" to the string kind, "integer" to the kind \<^verbatim>\<open>int\<close>, "number" to the
  kind \<^verbatim>\<open>float32\<close> and "boolean" to the boolean kind; the other widths of signed integer
  (\<^verbatim>\<open>int8\<close>, \<^verbatim>\<open>int16\<close>, \<^verbatim>\<open>int32\<close>, \<^verbatim>\<open>int64\<close>) and \<^verbatim>\<open>float64\<close> are rejected as
  unsupported.
\<close>

theorem primitive_kinds:
  "(Kind t = KString \<longrightarrow> readSpec t = Returned (FieldSpec ''string'' [] None [] [] []))
   \<and> (Kind t = KInt \<longrightarrow> readSpec t = Returned (FieldSpec ''integer'' [] None [] [] []))
   \<and> (Kind t = KFloat32 \<longrightarrow> readSpec t = Returned (FieldSpec ''number'' [] None [] [] []))
   \<and> (Kind t = KBool \<longrightarrow> readSpec t = Returned (FieldSpec ''boolean'' [] None [] [] []))
   \<and> (Kind t \<in> {KInt8, KInt16, KInt32, KInt64, KFloat64} \<longrightarrow>
        readSpec t = Panic (PString ''unsupported type''))"
  by (cases t) simp_all

theorem primitive_kinds_witness:
  "readSpec TString = Returned (FieldSpec ''string'' [] None [] [] [])
   \<and> readSpec TInt = Returned (FieldSpec ''integer'' [] None [] [] [])
   \<and> readSpec TFloat32 = Returned (FieldSpec ''number'' [] None [] [] [])
   \<and> readSpec TBool = Returned (FieldSpec ''boolean'' [] None [] [] [])
   \<and> readSpec TInt16 = Panic (PString ''unsupported type'')"
  using primitive_kinds [of TString] primitive_kinds [of TInt] primitive_kinds [of TFloat32]
    primitive_kinds [of TBool] primitive_kinds [of TInt16]
  by simp

subsection \<open>C6: unsupported kinds fail at registration\<close>

text \<open>
  Claim C6. For an argument type whose kind is none of struct, slice, string, signed
  integer, floating point and boolean, the derivation panics with "unsupported type", and
  so does \<open>MakeTool\<close> for a function of a well-formed signature with that argument type.
  Whatever the results of the function are, \<open>MakeTool\<close> ends in a panic: it returns no
  tool, so there is no handler to which the failure could be left.
\<close>

theorem unsupported_kind_panics_in_MakeTool:
  assumes "Kind t \<notin> {KStruct, KSlice, KString, KInt, KInt8, KInt16, KInt32, KInt64,
                       KFloat32, KFloat64, KBool}"
  shows "readSpec t = Panic (PString ''unsupported type'')
    \<and> (TypeOf f = TFunc [t] outs \<longrightarrow> (\<exists>p. MakeTool J f name desc = Panic p))
    \<and> (TypeOf f = TFunc [t] outs \<and> length outs = 2 \<and> Kind (outs ! 1) = KInterface
         \<and> Implements_error (outs ! 1)
       \<longrightarrow> MakeTool J f name desc = Panic (PString ''unsupported type''))"
proof -
  from assms have r: "readSpec t = Panic (PString ''unsupported type'')"
    by (cases t) simp_all
  then show ?thesis
    by (simp add: MakeTool_def)
qed

text \<open>A function that takes a map.\<close>

theorem unsupported_kind_panics_in_MakeTool_witness:
  "readSpec (TMap TString TInt) = Panic (PString ''unsupported type'')
   \<and> MakeTool sampleJSON countWords ''countWords'' ''Counts words.''
       = Panic (PString ''unsupported type'')"
proof -
  have k: "Kind (TMap TString TInt) \<notin> {KStruct, KSlice, KString, KInt, KInt8, KInt16, KInt32,
             KInt64, KFloat32, KFloat64, KBool}"
    by simp
  from unsupported_kind_panics_in_MakeTool [OF k, of countWords "[TInt, TInterface True]"
      sampleJSON "''countWords''" "''Counts words.''"]
  show ?thesis by (simp add: countWords_def)
qed

subsection \<open>C7: a normal stop and a stop at the length limit\<close>

text \<open>
  Claim C7. In any round of the loop of \<open>Talk\<close> (\<open>Talk\<close> is the loop started with the
  chat's tools), when the remote call answers and the finish reason of the first choice
  is "stop" or "length", \<open>Talk\<close> appends the message of that choice to the dialogue and
  returns its content with a nil error.
\<close>

theorem Talk_stop_or_length:
  assumes "client ch w = ((Some cl, None), w1)"
    and "api cl (chatRequest tools ch) (remote w1) = (Inr resp, x)"
    and "Choices resp = choice # others"
    and "FinishReason choice = FinishReasonStop \<or> FinishReason choice = FinishReasonLength"
  shows "Talk_loop api tools ch w =
           Some (Returned (Content (Message choice), None),
                 ch\<lparr>Dialogue := Dialogue ch @ [Message choice]\<rparr>, w1\<lparr>remote := x\<rparr>)"
  using assms by (subst Talk_loop.simps) (auto simp: finish_defs)

text \<open>An answer cut at the length limit.\<close>

theorem Talk_stop_or_length_witness:
  "Talk scriptedApi (sampleChat [])
     (sampleWorld [Inr (textResponse FinishReasonLength ''Once upon'')])
   = Some (Returned (''Once upon'', None),
           (sampleChat [])\<lparr>Dialogue := Dialogue (sampleChat []) @
              [\<lparr>Role = ChatMessageRoleAssistant, Content = ''Once upon'', ToolCalls = [],
                ToolCallID = []\<rparr>]\<rparr>,
           settledWorld [])"
proof -
  have a: "scriptedApi (NewClient ''sk-sample'') (chatRequest [] (sampleChat []))
             (remote (settledWorld [Inr (textResponse FinishReasonLength ''Once upon'')]))
           = (Inr (textResponse FinishReasonLength ''Once upon''), [])"
    by (simp add: scriptedApi_def settledWorld_def)
  have c: "Choices (textResponse FinishReasonLength ''Once upon'') =
             \<lparr>FinishReason = FinishReasonLength,
              Message = \<lparr>Role = ChatMessageRoleAssistant, Content = ''Once upon'',
                         ToolCalls = [], ToolCallID = []\<rparr>\<rparr> # []"
    by (simp add: textResponse_def)
  from Talk_stop_or_length
    [where api = scriptedApi and tools = "[]",
      OF client_sample [of "[]" "[Inr (textResponse FinishReasonLength ''Once upon'')]"] a c]
  show ?thesis by (simp add: Talk_def sampleChat_def settledWorld_def)
qed

subsection \<open>C8: a call of a tool that is not registered\<close>






subsection \<open>C9: a tool-calls answer without calls\<close>

text \<open>
  Claim C9. In any round of the loop, when the finish reason of the first choice is
  "tool_calls" and its message has no tool calls, \<open>Talk\<close> returns the error made by
  wrapping \<open>ErrUnexpectedResponse\<close> with the text ": no calls provided", and the chat is
  returned as it was: nothing is appended to the dialogue.
\<close>

theorem Talk_no_calls_provided:
  assumes "client ch w = ((Some cl, None), w1)"
    and "api cl (chatRequest tools ch) (remote w1) = (Inr resp, x)"
    and "Choices resp = choice # others"
    and "FinishReason choice = FinishReasonToolCalls"
    and "ToolCalls (Message choice) = []"
  shows "Talk_loop api tools ch w =
           Some (Returned ([], Some (Wrap ErrUnexpectedResponse '': no calls provided'')),
                 ch, w1\<lparr>remote := x\<rparr>)
         \<and> Is (Wrap ErrUnexpectedResponse '': no calls provided'') ErrUnexpectedResponse
         \<and> Error (Wrap ErrUnexpectedResponse '': no calls provided'')
             = ''unexpected response from OpenAI API: no calls provided''"
  using assms by (subst Talk_loop.simps) (simp add: finish_defs ErrUnexpectedResponse_def)

theorem Talk_no_calls_provided_witness:
  "Talk scriptedApi (sampleChat []) (sampleWorld [Inr (toolCallsResponse [])])
   = Some (Returned ([], Some (Wrap ErrUnexpectedResponse '': no calls provided'')),
           sampleChat [], settledWorld [])"
proof -
  have a: "scriptedApi (NewClient ''sk-sample'') (chatRequest [] (sampleChat []))
             (remote (settledWorld [Inr (toolCallsResponse [])]))
           = (Inr (toolCallsResponse []), [])"
    by (simp add: scriptedApi_def settledWorld_def)
  have c: "Choices (toolCallsResponse []) =
             \<lparr>FinishReason = FinishReasonToolCalls,
              Message = \<lparr>Role = ChatMessageRoleAssistant, Content = [],
                         ToolCalls = [], ToolCallID = []\<rparr>\<rparr> # []"
    by (simp add: toolCallsResponse_def)
  from Talk_no_calls_provided
    [where api = scriptedApi and tools = "[]",
      OF client_sample [of "[]" "[Inr (toolCallsResponse [])]"] a c]
  show ?thesis by (simp add: Talk_def sampleChat_def settledWorld_def)
qed

end
